theory Spec2Isabelle
  imports Main "HOL-Library.Char_ord"
begin

section \<open>Go library functions used by the client\<close>

text \<open>
  The client of \<^verbatim>\<open>package confluence\<close> is written against Go's standard library.
  Go strings are byte sequences, modelled as \<^typ>\<open>string\<close> (a list of 8-bit characters).
  The functions of \<^verbatim>\<open>strings\<close> and \<^verbatim>\<open>net/url\<close> below follow the library's
  implementation (Go 1.22), function by function and under the library's names, with the
  package name as a prefix where the name alone would be ambiguous.
\<close>

subsection \<open>Package strings\<close>

definition HasPrefix :: "string \<Rightarrow> string \<Rightarrow> bool" where
  "HasPrefix s p = (take (length p) s = p)"

definition HasSuffix :: "string \<Rightarrow> string \<Rightarrow> bool" where
  "HasSuffix s p = (length p \<le> length s \<and> drop (length s - length p) s = p)"

text \<open>\<^verbatim>\<open>strings.TrimSuffix\<close>.\<close>

definition TrimSuffix :: "string \<Rightarrow> string \<Rightarrow> string" where
  "TrimSuffix s suffix = (if HasSuffix s suffix then take (length s - length suffix) s else s)"

text \<open>\<^verbatim>\<open>strings.Index\<close>: the first position where \<open>sub\<close> starts, or -1.\<close>

fun Index_from :: "nat \<Rightarrow> string \<Rightarrow> string \<Rightarrow> int" where
  "Index_from n [] sub = (if sub = [] then int n else - 1)"
| "Index_from n (c # s) sub =
     (if HasPrefix (c # s) sub then int n else Index_from (Suc n) s sub)"

definition Index :: "string \<Rightarrow> string \<Rightarrow> int" where
  "Index s sub = Index_from 0 s sub"

text \<open>\<^verbatim>\<open>strings.LastIndex\<close>: the last position where \<open>sub\<close> starts, or -1.\<close>

fun LastIndex_from :: "nat \<Rightarrow> int \<Rightarrow> string \<Rightarrow> string \<Rightarrow> int" where
  "LastIndex_from n found [] sub = (if sub = [] then int n else found)"
| "LastIndex_from n found (c # s) sub =
     LastIndex_from (Suc n) (if HasPrefix (c # s) sub then int n else found) s sub"

definition LastIndex :: "string \<Rightarrow> string \<Rightarrow> int" where
  "LastIndex s sub = LastIndex_from 0 (- 1) s sub"

definition Contains :: "string \<Rightarrow> string \<Rightarrow> bool" where
  "Contains s sub = (0 \<le> Index s sub)"

text \<open>\<^verbatim>\<open>strings.Cut\<close>: the text before and after the first \<open>sep\<close>, and whether it is there.\<close>

definition Cut :: "string \<Rightarrow> string \<Rightarrow> string \<times> string \<times> bool" where
  "Cut s sep =
     (let i = Index s sep in
      if 0 \<le> i then (take (nat i) s, drop (nat i + length sep) s, True)
      else (s, [], False))"

text \<open>\<^verbatim>\<open>strings.Count\<close> for a separator of one byte.\<close>

definition CountByte :: "string \<Rightarrow> char \<Rightarrow> nat" where
  "CountByte s c = length (filter (\<lambda>x. x = c) s)"

text \<open>\<^verbatim>\<open>strings.Join\<close>.\<close>

fun Join :: "string list \<Rightarrow> string \<Rightarrow> string" where
  "Join [] sep = []"
| "Join [e] sep = e"
| "Join (e # es) sep = e @ sep @ Join es sep"

text \<open>The byte test \<^verbatim>\<open>lo <= c && c <= hi\<close>.\<close>

definition between :: "char \<Rightarrow> char \<Rightarrow> char \<Rightarrow> bool" where
  "between c lo hi = (lo \<le> c \<and> c \<le> hi)"

text \<open>
  \<^verbatim>\<open>strings.ToLower\<close> on ASCII text (the only text it receives here is a URL scheme,
  which \<open>getScheme\<close> restricts to ASCII letters, digits and \<^verbatim>\<open>+-.\<close>).
\<close>

definition ToLower :: "string \<Rightarrow> string" where
  "ToLower s =
     map (\<lambda>c. if between c CHR ''A'' CHR ''Z'' then char_of (of_char c + (32::nat)) else c) s"

subsection \<open>Package net/url: escaping\<close>

datatype encoding =
    encodePath
  | encodePathSegment
  | encodeHost
  | encodeZone
  | encodeUserPassword
  | encodeQueryComponent
  | encodeFragment

datatype url_err =
    ErrInvalidControlCharacter
  | ErrEmptyURL
  | ErrMissingProtocolScheme
  | ErrInvalidURIForRequest
  | ErrFirstPathSegmentColon
  | ErrInvalidUserinfo
  | ErrMissingBracket
  | ErrInvalidPort string
  | EscapeError string
  | InvalidHostError string

text \<open>\<^verbatim>\<open>url.Error{Op, URL, Err}\<close>, the error value that \<^verbatim>\<open>url.Parse\<close> returns.\<close>

datatype url_Error = url_Error string string url_err

definition ishex :: "char \<Rightarrow> bool" where
  "ishex c =
     (between c CHR ''0'' CHR ''9'' \<or> between c CHR ''a'' CHR ''f''
      \<or> between c CHR ''A'' CHR ''F'')"

definition unhex :: "char \<Rightarrow> nat" where
  "unhex c =
     (if between c CHR ''0'' CHR ''9'' then of_char c - of_char CHR ''0''
      else if between c CHR ''a'' CHR ''f'' then of_char c - of_char CHR ''a'' + 10
      else if between c CHR ''A'' CHR ''F'' then of_char c - of_char CHR ''A'' + 10
      else 0)"

text \<open>The byte \<^verbatim>\<open>unhex(a)<<4 | unhex(b)\<close> of an escape \<^verbatim>\<open>%ab\<close>.\<close>

definition unhex2 :: "char \<Rightarrow> char \<Rightarrow> char" where
  "unhex2 a b = char_of (unhex a * 16 + unhex b)"

definition shouldEscape :: "char \<Rightarrow> encoding \<Rightarrow> bool" where
  "shouldEscape c mode =
     (if between c CHR ''a'' CHR ''z'' \<or> between c CHR ''A'' CHR ''Z''
         \<or> between c CHR ''0'' CHR ''9'' then False
      else if (mode = encodeHost \<or> mode = encodeZone) \<and> c \<in> set (''!$&()*+,;=:[]<>'' @ [CHR 0x27, CHR 0x22]) then False
      else if c \<in> set ''-_.~'' then False
      else if c \<in> set ''$&+,/:;=?@'' \<and> mode = encodePath then c = CHR ''?''
      else if c \<in> set ''$&+,/:;=?@'' \<and> mode = encodePathSegment then
        c = CHR ''/'' \<or> c = CHR '';'' \<or> c = CHR '','' \<or> c = CHR ''?''
      else if c \<in> set ''$&+,/:;=?@'' \<and> mode = encodeUserPassword then
        c = CHR ''@'' \<or> c = CHR ''/'' \<or> c = CHR ''?'' \<or> c = CHR '':''
      else if c \<in> set ''$&+,/:;=?@'' \<and> mode = encodeQueryComponent then True
      else if c \<in> set ''$&+,/:;=?@'' \<and> mode = encodeFragment then False
      else if mode = encodeFragment \<and> c \<in> set ''!()*'' then False
      else True)"

text \<open>
  \<open>unescape\<close> first checks the text (every \<^verbatim>\<open>%\<close> is followed by two hex digits; a host
  escapes only non-ASCII bytes, a zone only what a host may hold), then decodes it.
\<close>

fun unescape_check :: "encoding \<Rightarrow> string \<Rightarrow> url_err option" where
  "unescape_check mode [] = None"
| "unescape_check mode [c] =
     (if c = CHR ''%'' then Some (EscapeError [c])
      else if c = CHR ''+'' then None
      else if (mode = encodeHost \<or> mode = encodeZone) \<and> c < CHR 0x80 \<and> shouldEscape c encodeHost
        then Some (InvalidHostError [c])
      else None)"
| "unescape_check mode [c, a] =
     (if c = CHR ''%'' then Some (EscapeError [c, a])
      else if c = CHR ''+'' then unescape_check mode [a]
      else if (mode = encodeHost \<or> mode = encodeZone) \<and> c < CHR 0x80 \<and> shouldEscape c encodeHost
        then Some (InvalidHostError [c])
      else unescape_check mode [a])"
| "unescape_check mode (c # a # b # s) =
     (if c = CHR ''%'' then
        (if \<not> ishex a \<or> \<not> ishex b then Some (EscapeError [c, a, b])
         else if mode = encodeHost \<and> unhex a < 8 \<and> [c, a, b] \<noteq> ''%25''
           then Some (EscapeError [c, a, b])
         else if mode = encodeZone \<and> [c, a, b] \<noteq> ''%25'' \<and> unhex2 a b \<noteq> CHR '' ''
                 \<and> shouldEscape (unhex2 a b) encodeHost
           then Some (EscapeError [c, a, b])
         else unescape_check mode s)
      else if c = CHR ''+'' then unescape_check mode (a # b # s)
      else if (mode = encodeHost \<or> mode = encodeZone) \<and> c < CHR 0x80 \<and> shouldEscape c encodeHost
        then Some (InvalidHostError [c])
      else unescape_check mode (a # b # s))"

text \<open>The decoding pass runs on checked text only: there a \<^verbatim>\<open>%\<close> has its two digits.\<close>

fun unescape_build :: "encoding \<Rightarrow> string \<Rightarrow> string" where
  "unescape_build mode (c # a # b # s) =
     (if c = CHR ''%'' then unhex2 a b # unescape_build mode s
      else if c = CHR ''+'' \<and> mode = encodeQueryComponent then CHR '' '' # unescape_build mode (a # b # s)
      else c # unescape_build mode (a # b # s))"
| "unescape_build mode (c # s) =
     (if c = CHR ''+'' \<and> mode = encodeQueryComponent then CHR '' '' # unescape_build mode s
      else c # unescape_build mode s)"
| "unescape_build mode [] = []"

definition unescape :: "string \<Rightarrow> encoding \<Rightarrow> url_err + string" where
  "unescape s mode =
     (case unescape_check mode s of
        Some e \<Rightarrow> Inl e
      | None \<Rightarrow>
          if CHR ''%'' \<notin> set s \<and> \<not> (CHR ''+'' \<in> set s \<and> mode = encodeQueryComponent) then Inr s
          else Inr (unescape_build mode s))"

definition upperhex :: string where
  "upperhex = ''0123456789ABCDEF''"

definition escape :: "string \<Rightarrow> encoding \<Rightarrow> string" where
  "escape s mode =
     concat (map (\<lambda>c.
        if c = CHR '' '' \<and> mode = encodeQueryComponent then ''+''
        else if shouldEscape c mode then
          [CHR ''%'', upperhex ! (of_char c div 16), upperhex ! (of_char c mod 16)]
        else [c]) s)"

definition validEncoded :: "string \<Rightarrow> encoding \<Rightarrow> bool" where
  "validEncoded s mode =
     list_all (\<lambda>c.
        if c \<in> set (''!$&()*+,;=:@'' @ [CHR 0x27]) then True
        else if c \<in> set ''[]'' then True
        else if c = CHR ''%'' then True
        else \<not> shouldEscape c mode) s"

subsection \<open>Package net/url: the URL type and Parse\<close>

record Userinfo =
  username :: string
  password :: string
  passwordSet :: bool

text \<open>\<^verbatim>\<open>url.URL\<close>; the field \<open>User\<close> is a pointer, \<open>None\<close> for nil.\<close>

record url_URL =
  Scheme :: string
  Opaque :: string
  User :: "Userinfo option"
  Host :: string
  Path :: string
  RawPath :: string
  OmitHost :: bool
  ForceQuery :: bool
  RawQuery :: string
  Fragment :: string
  RawFragment :: string

text \<open>The zero value of \<^verbatim>\<open>url.URL\<close>.\<close>

definition zero_URL :: url_URL where
  "zero_URL = \<lparr>Scheme = [], Opaque = [], User = None, Host = [], Path = [], RawPath = [],
     OmitHost = False, ForceQuery = False, RawQuery = [], Fragment = [], RawFragment = []\<rparr>"

definition UserPassword :: "string \<Rightarrow> string \<Rightarrow> Userinfo" where
  "UserPassword u p = \<lparr>username = u, password = p, passwordSet = True\<rparr>"

definition url_User :: "string \<Rightarrow> Userinfo" where
  "url_User u = \<lparr>username = u, password = [], passwordSet = False\<rparr>"

definition Userinfo_String :: "Userinfo option \<Rightarrow> string" where
  "Userinfo_String ui =
     (case ui of
        None \<Rightarrow> []
      | Some u \<Rightarrow>
          escape (username u) encodeUserPassword
          @ (if passwordSet u then '':'' @ escape (password u) encodeUserPassword else []))"

definition stringContainsCTLByte :: "string \<Rightarrow> bool" where
  "stringContainsCTLByte s = list_ex (\<lambda>b. b < CHR '' '' \<or> b = CHR 0x7F) s"

fun getScheme_from :: "nat \<Rightarrow> string \<Rightarrow> string \<Rightarrow> url_err + (string \<times> string)" where
  "getScheme_from i rawURL [] = Inr ([], rawURL)"
| "getScheme_from i rawURL (c # s) =
     (if between c CHR ''a'' CHR ''z'' \<or> between c CHR ''A'' CHR ''Z'' then
        getScheme_from (Suc i) rawURL s
      else if between c CHR ''0'' CHR ''9'' \<or> c = CHR ''+'' \<or> c = CHR ''-'' \<or> c = CHR ''.'' then
        (if i = 0 then Inr ([], rawURL) else getScheme_from (Suc i) rawURL s)
      else if c = CHR '':'' then
        (if i = 0 then Inl ErrMissingProtocolScheme
         else Inr (take i rawURL, drop (Suc i) rawURL))
      else Inr ([], rawURL))"

definition getScheme :: "string \<Rightarrow> url_err + (string \<times> string)" where
  "getScheme rawURL = getScheme_from 0 rawURL rawURL"

definition validOptionalPort :: "string \<Rightarrow> bool" where
  "validOptionalPort port =
     (case port of
        [] \<Rightarrow> True
      | c # ds \<Rightarrow> c = CHR '':'' \<and> list_all (\<lambda>b. \<not> (b < CHR ''0'' \<or> CHR ''9'' < b)) ds)"

definition validUserinfo :: "string \<Rightarrow> bool" where
  "validUserinfo s =
     list_all (\<lambda>r.
        between r CHR ''A'' CHR ''Z'' \<or> between r CHR ''a'' CHR ''z''
        \<or> between r CHR ''0'' CHR ''9''
        \<or> r \<in> set (''-._:~!$&()*+,;=%@'' @ [CHR 0x27])) s"

definition parseHost :: "string \<Rightarrow> url_err + string" where
  "parseHost host =
     (if HasPrefix host ''['' then
        (let i = LastIndex host '']'' in
         if i < 0 then Inl ErrMissingBracket
         else if \<not> validOptionalPort (drop (nat i + 1) host) then
           Inl (ErrInvalidPort (drop (nat i + 1) host))
         else
           (let zone = Index (take (nat i) host) ''%25'' in
            if 0 \<le> zone then
              (case unescape (take (nat zone) host) encodeHost of
                 Inl e \<Rightarrow> Inl e
               | Inr host1 \<Rightarrow>
                  (case unescape (drop (nat zone) (take (nat i) host)) encodeZone of
                     Inl e \<Rightarrow> Inl e
                   | Inr host2 \<Rightarrow>
                      (case unescape (drop (nat i) host) encodeHost of
                         Inl e \<Rightarrow> Inl e
                       | Inr host3 \<Rightarrow> Inr (host1 @ host2 @ host3))))
            else unescape host encodeHost))
      else
        (let i = LastIndex host '':'' in
         if i \<noteq> - 1 \<and> \<not> validOptionalPort (drop (nat i) host) then
           Inl (ErrInvalidPort (drop (nat i) host))
         else unescape host encodeHost))"

definition parseAuthority :: "string \<Rightarrow> url_err + (Userinfo option \<times> string)" where
  "parseAuthority authority =
     (let i = LastIndex authority ''@'' in
      case (if i < 0 then parseHost authority else parseHost (drop (nat i + 1) authority)) of
        Inl e \<Rightarrow> Inl e
      | Inr host \<Rightarrow>
          if i < 0 then Inr (None, host)
          else
            (let userinfo = take (nat i) authority in
             if \<not> validUserinfo userinfo then Inl ErrInvalidUserinfo
             else if \<not> Contains userinfo '':'' then
               (case unescape userinfo encodeUserPassword of
                  Inl e \<Rightarrow> Inl e
                | Inr name \<Rightarrow> Inr (Some (url_User name), host))
             else
               (case Cut userinfo '':'' of
                  (name0, password0, _) \<Rightarrow>
                    (case unescape name0 encodeUserPassword of
                       Inl e \<Rightarrow> Inl e
                     | Inr name \<Rightarrow>
                        (case unescape password0 encodeUserPassword of
                           Inl e \<Rightarrow> Inl e
                         | Inr pw \<Rightarrow> Inr (Some (UserPassword name pw), host))))))"

text \<open>
  \<open>setPath\<close> stores the decoded path, and the text as it was written (\<open>RawPath\<close>) only when
  the default encoding of the path would differ from it.
\<close>

definition setPath :: "url_URL \<Rightarrow> string \<Rightarrow> url_err + url_URL" where
  "setPath u p =
     (case unescape p encodePath of
        Inl e \<Rightarrow> Inl e
      | Inr path \<Rightarrow>
          Inr (u\<lparr>Path := path, RawPath := (if p = escape path encodePath then [] else p)\<rparr>))"

definition setFragment :: "url_URL \<Rightarrow> string \<Rightarrow> url_err + url_URL" where
  "setFragment u f =
     (case unescape f encodeFragment of
        Inl e \<Rightarrow> Inl e
      | Inr frag \<Rightarrow>
          Inr (u\<lparr>Fragment := frag,
                 RawFragment := (if f = escape frag encodeFragment then [] else f)\<rparr>))"

definition EscapedPath :: "url_URL \<Rightarrow> string" where
  "EscapedPath u =
     (if RawPath u \<noteq> [] \<and> validEncoded (RawPath u) encodePath
         \<and> unescape (RawPath u) encodePath = Inr (Path u) then RawPath u
      else if Path u = ''*'' then ''*''
      else escape (Path u) encodePath)"

definition EscapedFragment :: "url_URL \<Rightarrow> string" where
  "EscapedFragment u =
     (if RawFragment u \<noteq> [] \<and> validEncoded (RawFragment u) encodeFragment
         \<and> unescape (RawFragment u) encodeFragment = Inr (Fragment u) then RawFragment u
      else escape (Fragment u) encodeFragment)"

text \<open>
  \<open>parse\<close>, after the scheme and the query are split off: the authority (when the rest
  starts with \<^verbatim>\<open>//\<close>) and the path.
\<close>

definition parse_authority_path :: "url_URL \<Rightarrow> string \<Rightarrow> bool \<Rightarrow> url_err + url_URL" where
  "parse_authority_path url rest viaRequest =
     (if (Scheme url \<noteq> [] \<or> \<not> viaRequest \<and> \<not> HasPrefix rest ''///'') \<and> HasPrefix rest ''//'' then
        (let authority0 = drop 2 rest; i = Index authority0 ''/'' in
         case parseAuthority (if 0 \<le> i then take (nat i) authority0 else authority0) of
           Inl e \<Rightarrow> Inl e
         | Inr (usr, host) \<Rightarrow>
             setPath (url\<lparr>User := usr, Host := host\<rparr>)
               (if 0 \<le> i then drop (nat i) authority0 else []))
      else if Scheme url \<noteq> [] \<and> HasPrefix rest ''/'' then setPath (url\<lparr>OmitHost := True\<rparr>) rest
      else setPath url rest)"

definition parse :: "string \<Rightarrow> bool \<Rightarrow> url_err + url_URL" where
  "parse rawURL viaRequest =
     (if stringContainsCTLByte rawURL then Inl ErrInvalidControlCharacter
      else if rawURL = [] \<and> viaRequest then Inl ErrEmptyURL
      else if rawURL = ''*'' then Inr (zero_URL\<lparr>Path := ''*''\<rparr>)
      else
        (case getScheme rawURL of
           Inl e \<Rightarrow> Inl e
         | Inr (scheme, rest0) \<Rightarrow>
            (let forceQuery = (HasSuffix rest0 ''?'' \<and> CountByte rest0 CHR ''?'' = 1);
                 rest = (if forceQuery then butlast rest0 else fst (Cut rest0 ''?''));
                 url = zero_URL\<lparr>Scheme := ToLower scheme, ForceQuery := forceQuery,
                         RawQuery := (if forceQuery then [] else fst (snd (Cut rest0 ''?'')))\<rparr>
             in
               if \<not> HasPrefix rest ''/'' \<and> Scheme url \<noteq> [] then Inr (url\<lparr>Opaque := rest\<rparr>)
               else if \<not> HasPrefix rest ''/'' \<and> viaRequest then Inl ErrInvalidURIForRequest
               else if \<not> HasPrefix rest ''/'' \<and> Contains (fst (Cut rest ''/'')) '':'' then
                 Inl ErrFirstPathSegmentColon
               else parse_authority_path url rest viaRequest)))"

text \<open>\<^verbatim>\<open>url.Parse\<close>: the fragment is cut off first, and set after the rest is parsed.\<close>

definition Parse :: "string \<Rightarrow> url_Error + url_URL" where
  "Parse rawURL =
     (case Cut rawURL ''#'' of
        (u, frag, _) \<Rightarrow>
          (case parse u False of
             Inl e \<Rightarrow> Inl (url_Error ''parse'' u e)
           | Inr url \<Rightarrow>
               if frag = [] then Inr url
               else
                 (case setFragment url frag of
                    Inl e \<Rightarrow> Inl (url_Error ''parse'' rawURL e)
                  | Inr url' \<Rightarrow> Inr url')))"

subsection \<open>Package net/url: String and ResolveReference\<close>

text \<open>\<^verbatim>\<open>strings.Split\<close> for a separator of one byte: never an empty list.\<close>

fun SplitByte :: "string \<Rightarrow> char \<Rightarrow> string list" where
  "SplitByte [] sep = [[]]"
| "SplitByte (c # s) sep =
     (if c = sep then [] # SplitByte s sep
      else (case SplitByte s sep of [] \<Rightarrow> [[c]] | e # es \<Rightarrow> (c # e) # es))"

text \<open>
  The loop of \<open>resolvePath\<close> takes the elements of the path one \<^verbatim>\<open>strings.Cut\<close> at a
  time, that is the elements of \<open>SplitByte full CHR ''/''\<close> in order; \<open>dst\<close> is the text
  built so far (it starts as \<^verbatim>\<open>/\<close>), \<open>first\<close> says that no element has been written.
\<close>

fun resolvePath_loop :: "string list \<Rightarrow> string \<Rightarrow> bool \<Rightarrow> string" where
  "resolvePath_loop [] dst first = dst"
| "resolvePath_loop (elem # elems) dst first =
     (if elem = ''.'' then resolvePath_loop elems dst False
      else if elem = ''..'' then
        (let str = drop 1 dst; index = LastIndex str ''/'' in
         if index = - 1 then resolvePath_loop elems ''/'' True
         else resolvePath_loop elems (''/'' @ take (nat index) str) first)
      else resolvePath_loop elems ((if first then dst else dst @ ''/'') @ elem) False)"

definition resolvePath :: "string \<Rightarrow> string \<Rightarrow> string" where
  "resolvePath base ref =
     (let full = (if ref = [] then base
                  else if hd ref \<noteq> CHR ''/'' then take (nat (LastIndex base ''/'' + 1)) base @ ref
                  else ref)
      in
        if full = [] then []
        else
          (let elems = SplitByte full CHR ''/'';
               dst = resolvePath_loop elems ''/'' True;
               r = (if last elems = ''.'' \<or> last elems = ''..'' then dst @ ''/'' else dst)
           in if 1 < length r \<and> r ! 1 = CHR ''/'' then drop 1 r else r))"

text \<open>\<open>ResolveReference\<close> ignores an error of \<open>setPath\<close>: the URL then keeps its path.\<close>

definition setPath_ignore :: "url_URL \<Rightarrow> string \<Rightarrow> url_URL" where
  "setPath_ignore u p = (case setPath u p of Inl e \<Rightarrow> u | Inr u' \<Rightarrow> u')"

definition ResolveReference :: "url_URL \<Rightarrow> url_URL \<Rightarrow> url_URL" where
  "ResolveReference u ref =
     (let url = (if Scheme ref = [] then ref\<lparr>Scheme := Scheme u\<rparr> else ref) in
      if Scheme ref \<noteq> [] \<or> Host ref \<noteq> [] \<or> User ref \<noteq> None then
        setPath_ignore url (resolvePath (EscapedPath ref) [])
      else if Opaque ref \<noteq> [] then url\<lparr>User := None, Host := [], Path := []\<rparr>
      else
        (let url1 = (if Path ref = [] \<and> \<not> ForceQuery ref \<and> RawQuery ref = [] then
                       (if Fragment ref = [] then
                          url\<lparr>RawQuery := RawQuery u, Fragment := Fragment u,
                              RawFragment := RawFragment u\<rparr>
                        else url\<lparr>RawQuery := RawQuery u\<rparr>)
                     else url)
         in
           if Path ref = [] \<and> Opaque u \<noteq> [] then
             url1\<lparr>Opaque := Opaque u, User := None, Host := [], Path := []\<rparr>
           else
             setPath_ignore (url1\<lparr>Host := Host u, User := User u\<rparr>)
               (resolvePath (EscapedPath u) (EscapedPath ref))))"

text \<open>
  \<^verbatim>\<open>(*URL).String\<close>. The text written before the path is kept apart, since the path
  gets a leading \<^verbatim>\<open>./\<close> when nothing was written before it and its first segment
  holds a colon.
\<close>

definition String_authority :: "url_URL \<Rightarrow> string" where
  "String_authority u =
     (if Scheme u \<noteq> [] \<or> Host u \<noteq> [] \<or> User u \<noteq> None then
        (if OmitHost u \<and> Host u = [] \<and> User u = None then []
         else
           (if Host u \<noteq> [] \<or> Path u \<noteq> [] \<or> User u \<noteq> None then ''//'' else [])
           @ (if User u \<noteq> None then Userinfo_String (User u) @ ''@'' else [])
           @ (if Host u \<noteq> [] then escape (Host u) encodeHost else []))
      else [])"

definition URL_String :: "url_URL \<Rightarrow> string" where
  "URL_String u =
     (let buf0 = (if Scheme u \<noteq> [] then Scheme u @ '':'' else []);
          buf1 =
            (if Opaque u \<noteq> [] then buf0 @ Opaque u
             else
               (let buf = buf0 @ String_authority u;
                    path = EscapedPath u;
                    buf' = (if path \<noteq> [] \<and> hd path \<noteq> CHR ''/'' \<and> Host u \<noteq> [] then buf @ ''/''
                            else buf);
                    buf'' = (if buf' = [] \<and> Contains (fst (Cut path ''/'')) '':'' then buf' @ ''./''
                             else buf')
                in buf'' @ path));
          buf2 = (if ForceQuery u \<or> RawQuery u \<noteq> [] then buf1 @ ''?'' @ RawQuery u else buf1)
      in if Fragment u \<noteq> [] then buf2 @ ''#'' @ EscapedFragment u else buf2)"

text \<open>\<^verbatim>\<open>(*URL).Parse\<close>: parse the reference, resolve it against the receiver.\<close>

definition URL_Parse :: "url_URL \<Rightarrow> string \<Rightarrow> url_Error + url_URL" where
  "URL_Parse u ref =
     (case Parse ref of
        Inl e \<Rightarrow> Inl e
      | Inr refURL \<Rightarrow> Inr (ResolveReference u refURL))"

section \<open>The Confluence client\<close>

subsection \<open>Data model\<close>

text \<open>\<^verbatim>\<open>http.Client\<close>: the one field the client sets, a \<^verbatim>\<open>time.Duration\<close> in nanoseconds.\<close>

record http_Client =
  Timeout :: int

definition Second :: int where
  "Second = 1000000000"

record Client =
  client :: http_Client
  baseURL :: url_URL
  publicURL :: url_URL

record NewClientInput =
  site :: string
  user :: string
  token :: string

record ErrorResponse_Data =
  Authorized :: bool
  Valid :: bool
  Errors :: "string list"
  Successful :: bool

record ErrorResponse =
  StatusCode :: int
  Data :: ErrorResponse_Data
  Message :: string

text \<open>
  \<^verbatim>\<open>http.Request\<close> and \<^verbatim>\<open>http.Response\<close>, with the fields that \<^verbatim>\<open>http.NewRequest\<close>
  sets and the client writes and reads. A header maps a key to its values;
  \<^verbatim>\<open>Header.Set\<close> replaces the values of a key (the key \<^verbatim>\<open>Content-Type\<close> is already in
  canonical form). The body of a request is the text its reader yields, \<open>None\<close> for no
  reader.
\<close>

type_synonym Header = "(string \<times> string list) list"

definition Header_Set :: "Header \<Rightarrow> string \<Rightarrow> string \<Rightarrow> Header" where
  "Header_Set h key v = (key, [v]) # filter (\<lambda>kv. fst kv \<noteq> key) h"

record Request =
  req_Method :: string
  req_URL :: url_URL
  req_Header :: Header
  req_Body :: "string option"
  req_ContentLength :: int
  req_Host :: string

record Response =
  resp_Status :: string
  resp_StatusCode :: int
  resp_Body :: string

text \<open>
  The error values of the client: an error of \<^verbatim>\<open>net/url\<close>, the error of
  \<^verbatim>\<open>http.NewRequest\<close> for a method that is not a token, an error of
  \<^verbatim>\<open>encoding/json\<close> or of the transport with its text, and an error made by
  \<^verbatim>\<open>fmt.Errorf\<close> with its text.
\<close>

datatype error =
    UrlError url_Error
  | InvalidMethod string
  | JsonError string
  | HttpError string
  | Errorf string

text \<open>
  \<^verbatim>\<open>http.NewRequest\<close> (Go 1.22): an empty method stands for GET; the method must be a
  token of HTTP; the URL text is parsed again, and an empty port is dropped from its host.
  The request starts with no header. A body of no bytes is replaced by \<^verbatim>\<open>http.NoBody\<close>,
  whose text is empty as well.
\<close>

definition isTokenByte :: "char \<Rightarrow> bool" where
  "isTokenByte c =
     (between c CHR ''a'' CHR ''z'' \<or> between c CHR ''A'' CHR ''Z'' \<or> between c CHR ''0'' CHR ''9''
      \<or> c \<in> set (''!#$%&*+-.^_|~'' @ [CHR 0x27, CHR 0x60]))"

definition validMethod :: "string \<Rightarrow> bool" where
  "validMethod method = (0 < length method \<and> list_all isTokenByte method)"

definition hasPort :: "string \<Rightarrow> bool" where
  "hasPort s = (LastIndex s '']'' < LastIndex s '':'')"

definition removeEmptyPort :: "string \<Rightarrow> string" where
  "removeEmptyPort host = (if hasPort host then TrimSuffix host '':'' else host)"

definition NewRequest :: "string \<Rightarrow> string \<Rightarrow> string option \<Rightarrow> error + Request" where
  "NewRequest method url body =
     (let method' = (if method = [] then ''GET'' else method) in
      if \<not> validMethod method' then Inl (InvalidMethod method')
      else
        (case Parse url of
           Inl err \<Rightarrow> Inl (UrlError err)
         | Inr u \<Rightarrow>
             Inr \<lparr>req_Method = method', req_URL = u\<lparr>Host := removeEmptyPort (Host u)\<rparr>,
                  req_Header = [], req_Body = body,
                  req_ContentLength = (case body of None \<Rightarrow> 0 | Some bs \<Rightarrow> int (length bs)),
                  req_Host = removeEmptyPort (Host u)\<rparr>))"

text \<open>
  The result argument of the executor is an \<^verbatim>\<open>interface{}\<close> value: nil; a non-nil pointer
  to a variable of the caller, with the value the variable holds; a nil pointer; or a
  value that is not a pointer, of which the caller keeps its own copy.
\<close>

datatype 'r iface =
    nil_iface
  | ptr 'r
  | nil_ptr
  | val 'r

datatype panic = NilPointerDereference

text \<open>
  What lies outside the program is a parameter of the model: the JSON encoder and decoders
  (\<open>Inl\<close> carries the text of the error) and the transport \<^verbatim>\<open>c.client.Do\<close>, which
  answers a request with a response or fails. \<open>Decode_result\<close> decodes into the variable
  behind a pointer: it starts from the value the variable holds and returns the value it
  holds afterwards, also when it fails. \<open>Decode_interface\<close> decodes into an
  \<^verbatim>\<open>interface{}\<close> variable that holds no usable pointer: only its error is of interest.
\<close>

record ('b, 'r) env =
  json_Marshal :: "'b \<Rightarrow> string + string"
  client_Do :: "http_Client \<Rightarrow> Request \<Rightarrow> string + Response"
  Decode_ErrorResponse :: "string \<Rightarrow> string + ErrorResponse"
  Decode_result :: "string \<Rightarrow> 'r \<Rightarrow> string option \<times> 'r"
  Decode_interface :: "string \<Rightarrow> string option"

text \<open>
  What a call of the executor leaves behind: the error it returns (\<open>None\<close> for nil), the
  result argument as the caller sees it after the call, the handle, and the request it
  handed to the transport.
\<close>

record 'r outcome =
  returned :: "error option"
  target :: "'r iface"
  handle :: Client
  issued :: "Request option"

subsection \<open>Operations\<close>

text \<open>\<open>NewClient\<close> reads through its pointer argument: a nil input panics.\<close>

definition NewClient :: "NewClientInput option \<Rightarrow> panic + Client" where
  "NewClient input =
     (case input of
        None \<Rightarrow> Inl NilPointerDereference
      | Some i \<Rightarrow>
          (let public = zero_URL\<lparr>Scheme := ''https'', Host := site i @ ''.atlassian.net''\<rparr>;
               base = public\<lparr>User := Some (UserPassword (user i) (token i))\<rparr>
           in Inr \<lparr>client = \<lparr>Timeout = Second * 10\<rparr>, baseURL = base, publicURL = public\<rparr>))"

definition newline :: string where
  "newline = [CHR 0x0A]"

text \<open>The verb \<^verbatim>\<open>%t\<close> of \<^verbatim>\<open>fmt\<close>.\<close>

definition fmt_bool :: "bool \<Rightarrow> string" where
  "fmt_bool b = (if b then ''true'' else ''false'')"

definition ErrorResponse_String :: "ErrorResponse \<Rightarrow> string" where
  "ErrorResponse_String e =
     (let d = Data e;
          errorsString =
            (if 0 < length (Errors d) then
               newline @ ''  * '' @ Join (Errors d) (newline @ ''  * '')
             else [])
      in Message e @ newline @ ''Authorized: '' @ fmt_bool (Authorized d)
         @ newline @ ''Valid: '' @ fmt_bool (Valid d)
         @ newline @ ''Successful: '' @ fmt_bool (Successful d) @ errorsString)"

text \<open>The table of \<open>do\<close>; reading a Go map at a key it does not hold gives zero.\<close>

definition expectedStatusCode :: "(string \<times> int) list" where
  "expectedStatusCode = [(''POST'', 200), (''PUT'', 200), (''GET'', 200), (''DELETE'', 204)]"

definition map_index :: "(string \<times> int) list \<Rightarrow> string \<Rightarrow> int" where
  "map_index m k = (case map_of m k of None \<Rightarrow> 0 | Some v \<Rightarrow> v)"

text \<open>
  The text of the two \<^verbatim>\<open>fmt.Errorf\<close> calls of \<open>do\<close>, format
  \<^verbatim>\<open>"%s\n\n%s %s\n%s\n\n%v"\<close> (or \<^verbatim>\<open>%s\<close> last): status line, method, path, the request
  body, and the last argument's text.
\<close>

definition Errorf_text :: "string \<Rightarrow> string \<Rightarrow> string \<Rightarrow> string \<Rightarrow> string \<Rightarrow> string" where
  "Errorf_text status method path bodyBytes detail =
     status @ newline @ newline @ method @ '' '' @ path @ newline @ bodyBytes
     @ newline @ newline @ detail"

text \<open>
  \<open>do\<close>, step by step as the source has it: resolve the path against the authenticated
  base; serialize the body when there is one (\<open>bodyBytes\<close> stays empty otherwise); build
  the request, with the header \<^verbatim>\<open>Content-Type\<close> when there is a body; hand it to the
  transport; compare the status of the response with the entry of the method; on a
  mismatch decode the error payload and return the formatted error; otherwise decode the
  body into the result argument when it is not nil. Every early \<^verbatim>\<open>return err\<close> is a
  branch. The deferred \<^verbatim>\<open>resp.Body.Close()\<close> changes nothing that \<open>do\<close> returns and is
  left out.

  The last step is \<^verbatim>\<open>Decode(&result)\<close>, on the address of \<open>do\<close>'s own variable
  \<open>result\<close>. The decoder of \<^verbatim>\<open>encoding/json\<close> follows an interface that holds a non-nil
  pointer and stores through the pointer, into the caller's variable. An interface that
  holds anything else is overwritten with the decoded value: that is \<open>do\<close>'s variable,
  lost when \<open>do\<close> returns, and what the caller passed is as it was.
\<close>

definition do ::
  "('b, 'r) env \<Rightarrow> Client \<Rightarrow> string \<Rightarrow> string \<Rightarrow> 'b option \<Rightarrow> 'r iface \<Rightarrow> 'r outcome" where
  "do e c method path body result =
     (case URL_Parse (baseURL c) path of
        Inl err \<Rightarrow> \<lparr>returned = Some (UrlError err), target = result, handle = c, issued = None\<rparr>
      | Inr u \<Rightarrow>
         (case (case body of None \<Rightarrow> Inr [] | Some b \<Rightarrow> json_Marshal e b) of
            Inl err \<Rightarrow>
              \<lparr>returned = Some (JsonError err), target = result, handle = c, issued = None\<rparr>
          | Inr bodyBytes \<Rightarrow>
             (case NewRequest method (URL_String u)
                     (if body \<noteq> None then Some bodyBytes else None) of
                Inl err \<Rightarrow> \<lparr>returned = Some err, target = result, handle = c, issued = None\<rparr>
              | Inr req0 \<Rightarrow>
                 (let req = (if body \<noteq> None then
                               req0\<lparr>req_Header :=
                                 Header_Set (req_Header req0) ''Content-Type'' ''application/json''\<rparr>
                             else req0)
                  in
                    case client_Do e (client c) req of
                      Inl err \<Rightarrow>
                        \<lparr>returned = Some (HttpError err), target = result, handle = c,
                         issued = Some req\<rparr>
                    | Inr resp \<Rightarrow>
                        if resp_StatusCode resp \<noteq> map_index expectedStatusCode method then
                          (case Decode_ErrorResponse e (resp_Body resp) of
                             Inl err \<Rightarrow>
                               \<lparr>returned = Some (Errorf
                                  (Errorf_text (resp_Status resp) method path bodyBytes err)),
                                target = result, handle = c, issued = Some req\<rparr>
                           | Inr errResponse \<Rightarrow>
                               \<lparr>returned = Some (Errorf
                                  (Errorf_text (resp_Status resp) method path bodyBytes
                                     (ErrorResponse_String errResponse))),
                                target = result, handle = c, issued = Some req\<rparr>)
                        else
                          (case result of
                             nil_iface \<Rightarrow>
                               \<lparr>returned = None, target = nil_iface, handle = c,
                                issued = Some req\<rparr>
                           | ptr r \<Rightarrow>
                              (case Decode_result e (resp_Body resp) r of
                                 (Some err, r') \<Rightarrow>
                                   \<lparr>returned = Some (JsonError err), target = ptr r',
                                    handle = c, issued = Some req\<rparr>
                               | (None, r') \<Rightarrow>
                                   \<lparr>returned = None, target = ptr r', handle = c,
                                    issued = Some req\<rparr>)
                           | nil_ptr \<Rightarrow>
                               \<lparr>returned = map_option JsonError
                                  (Decode_interface e (resp_Body resp)),
                                target = nil_ptr, handle = c, issued = Some req\<rparr>
                           | val r \<Rightarrow>
                               \<lparr>returned = map_option JsonError
                                  (Decode_interface e (resp_Body resp)),
                                target = val r, handle = c, issued = Some req\<rparr>)))))"

definition Post :: "('b, 'r) env \<Rightarrow> Client \<Rightarrow> string \<Rightarrow> 'b option \<Rightarrow> 'r iface \<Rightarrow> 'r outcome" where
  "Post e c path body result = do e c ''POST'' path body result"

definition Get :: "('b, 'r) env \<Rightarrow> Client \<Rightarrow> string \<Rightarrow> 'r iface \<Rightarrow> 'r outcome" where
  "Get e c path result = do e c ''GET'' path None result"

definition Put :: "('b, 'r) env \<Rightarrow> Client \<Rightarrow> string \<Rightarrow> 'b option \<Rightarrow> 'r iface \<Rightarrow> 'r outcome" where
  "Put e c path body result = do e c ''PUT'' path body result"

definition Delete :: "('b, 'r) env \<Rightarrow> Client \<Rightarrow> string \<Rightarrow> 'r outcome" where
  "Delete e c path = do e c ''DELETE'' path None nil_iface"

text \<open>\<open>URL\<close> returns the public URL of a path, and the handle as the call leaves it.\<close>

definition URL :: "Client \<Rightarrow> string \<Rightarrow> string \<times> Client" where
  "URL c path =
     (case URL_Parse (publicURL c) path of
        Inl err \<Rightarrow> ([], c)
      | Inr u \<Rightarrow> (URL_String u, c))"

subsection \<open>The specification's words, and a test double\<close>

text \<open>
  The bulleted list of sub-errors as the specification words it: every sub-error on a
  line of its own, after the prefix of two spaces, a star and a space.
\<close>

definition spec_bullets :: "string list \<Rightarrow> string" where
  "spec_bullets es = concat (map (\<lambda>s. newline @ ''  * '' @ s) es)"

text \<open>
  The request body as the specification words it for an error's text: the serialized
  body, or nothing when no body was sent.
\<close>

definition spec_sent_body :: "('b, 'r) env \<Rightarrow> 'b option \<Rightarrow> string" where
  "spec_sent_body e body =
     (case body of
        None \<Rightarrow> []
      | Some b \<Rightarrow> (case json_Marshal e b of Inl err \<Rightarrow> [] | Inr bodyBytes \<Rightarrow> bodyBytes))"

text \<open>
  A path joined against a base with an empty path, as the specification means it (the
  reference resolution of RFC 3986): the segments of the path are taken in order, a
  segment \<^verbatim>\<open>.\<close> is dropped, a segment \<^verbatim>\<open>..\<close> drops the segment kept last, if any;
  the segments kept are written after a slash, with slashes between them, and a slash
  ends the text when the path ends in \<^verbatim>\<open>.\<close> or \<^verbatim>\<open>..\<close> and a segment is kept. A slash
  that starts the path starts no segment.
\<close>

fun spec_keep_segments :: "string list \<Rightarrow> string list \<Rightarrow> string list" where
  "spec_keep_segments [] kept = kept"
| "spec_keep_segments (seg # segs) kept =
     (if seg = ''.'' then spec_keep_segments segs kept
      else if seg = ''..'' then spec_keep_segments segs (butlast kept)
      else spec_keep_segments segs (kept @ [seg]))"

definition spec_segments :: "string \<Rightarrow> string list" where
  "spec_segments path = SplitByte (if HasPrefix path ''/'' then drop 1 path else path) CHR ''/''"

text \<open>A path with no empty segment inside: a slash may start it and may end it.\<close>

definition spec_no_empty_segment :: "string \<Rightarrow> bool" where
  "spec_no_empty_segment path = list_all (\<lambda>seg. seg \<noteq> []) (butlast (spec_segments path))"

definition spec_joined :: "string \<Rightarrow> string" where
  "spec_joined path =
     (if path = [] then []
      else
        (let segs = spec_segments path; kept = spec_keep_segments segs [] in
         ''/'' @ Join kept ''/''
         @ (if (last segs = ''.'' \<or> last segs = ''..'') \<and> kept \<noteq> [] then ''/'' else [])))"

text \<open>
  A site, and the handle \<open>NewClient\<close> builds for it, for the examples; and an environment
  for them, in which a body is its own JSON text, every request is answered
  with \<open>resp\<close>, the error payload decodes as \<open>decoded\<close>, the variable behind a result pointer
  receives the text of the body, and every body decodes into an interface.
\<close>

definition acme_input :: NewClientInput where
  "acme_input = \<lparr>site = ''acme'', user = ''bot@example.org'', token = ''s3cr:t''\<rparr>"

definition acme_public :: url_URL where
  "acme_public = \<lparr>Scheme = ''https'', Opaque = [], User = None, Host = ''acme.atlassian.net'',
     Path = [], RawPath = [], OmitHost = False, ForceQuery = False, RawQuery = [],
     Fragment = [], RawFragment = []\<rparr>"

definition acme :: Client where
  "acme = \<lparr>client = \<lparr>Timeout = 10000000000\<rparr>,
     baseURL = acme_public\<lparr>User := Some \<lparr>username = ''bot@example.org'', password = ''s3cr:t'',
       passwordSet = True\<rparr>\<rparr>,
     publicURL = acme_public\<rparr>"

definition stub_env :: "Response \<Rightarrow> string + ErrorResponse \<Rightarrow> (string, string) env" where
  "stub_env resp decoded =
     \<lparr>json_Marshal = Inr, client_Do = (\<lambda>cl req. Inr resp),
      Decode_ErrorResponse = (\<lambda>body. decoded), Decode_result = (\<lambda>body r. (None, body)),
      Decode_interface = (\<lambda>body. None)\<rparr>"

definition not_found :: Response where
  "not_found = \<lparr>resp_Status = ''404 Not Found'', resp_StatusCode = 404, resp_Body = ''{..}''\<rparr>"

definition no_content :: ErrorResponse where
  "no_content = \<lparr>StatusCode = 404,
     Data = \<lparr>Authorized = True, Valid = False, Errors = [''no page'', ''no space''],
             Successful = False\<rparr>,
     Message = ''No content found''\<rparr>"

definition page_found :: Response where
  "page_found = \<lparr>resp_Status = ''200 OK'', resp_StatusCode = 200, resp_Body = ''{page 7}''\<rparr>"

definition deleted :: Response where
  "deleted = \<lparr>resp_Status = ''204 No Content'', resp_StatusCode = 204, resp_Body = ''ignored''\<rparr>"

definition get7 :: Request where
  "get7 = \<lparr>req_Method = ''GET'',
     req_URL = (baseURL acme)\<lparr>Path := ''/wiki/rest/api/content/7''\<rparr>,
     req_Header = [], req_Body = None, req_ContentLength = 0,
     req_Host = ''acme.atlassian.net''\<rparr>"

definition delete7 :: Request where
  "delete7 = get7\<lparr>req_Method := ''DELETE''\<rparr>"


section \<open>Properties\<close>

subsection \<open>Auxiliary facts about the executor\<close>

lemma Join_prefixed: "es \<noteq> [] \<Longrightarrow> sep @ Join es sep = concat (map (\<lambda>s. sep @ s) es)"
  by (induction es sep rule: Join.induct) simp_all

lemma ErrorResponse_String_unfold:
  "ErrorResponse_String e =
     Message e @ newline @ ''Authorized: '' @ fmt_bool (Authorized (Data e))
     @ newline @ ''Valid: '' @ fmt_bool (Valid (Data e))
     @ newline @ ''Successful: '' @ fmt_bool (Successful (Data e))
     @ spec_bullets (Errors (Data e))"
proof (cases "Errors (Data e) = []")
  case True
  then show ?thesis by (simp add: ErrorResponse_String_def spec_bullets_def Let_def)
next
  case False
  from Join_prefixed [OF False, of "newline @ ''  * ''"]
  show ?thesis using False by (simp add: ErrorResponse_String_def spec_bullets_def Let_def)
qed

lemma do_handle: "handle (do e c m p b r) = c"
  by (simp add: do_def Let_def split: sum.splits option.splits prod.splits iface.splits)


text \<open>
  The request that \<open>do\<close> hands to the transport, from the request of \<open>NewRequest\<close>.
\<close>

lemma do_issues:
  assumes "URL_Parse (baseURL c) p = Inr u"
    and "(case b of None \<Rightarrow> Inr [] | Some x \<Rightarrow> json_Marshal e x) = Inr bodyBytes"
    and "NewRequest m (URL_String u) (if b \<noteq> None then Some bodyBytes else None) = Inr req0"
  shows "issued (do e c m p b r) =
     Some (if b \<noteq> None then
             req0\<lparr>req_Header := Header_Set (req_Header req0) ''Content-Type'' ''application/json''\<rparr>
           else req0)"
  using assms
  by (cases b)
     (simp_all add: do_def Let_def split: sum.splits option.splits prod.splits iface.splits)

text \<open>A request reaches the transport only after the three steps before it succeeded.\<close>

lemma do_issued:
  assumes "issued (do e c m p b r) = Some req"
  shows "\<exists>u bodyBytes req0. URL_Parse (baseURL c) p = Inr u
     \<and> (case b of None \<Rightarrow> Inr [] | Some x \<Rightarrow> json_Marshal e x) = Inr bodyBytes
     \<and> NewRequest m (URL_String u) (if b \<noteq> None then Some bodyBytes else None) = Inr req0
     \<and> req = (if b \<noteq> None then
                req0\<lparr>req_Header :=
                  Header_Set (req_Header req0) ''Content-Type'' ''application/json''\<rparr>
              else req0)"
proof (cases "URL_Parse (baseURL c) p")
  case (Inl err)
  with assms show ?thesis by (simp add: do_def)
next
  case u: (Inr u)
  show ?thesis
  proof (cases "case b of None \<Rightarrow> Inr [] | Some x \<Rightarrow> json_Marshal e x")
    case (Inl err)
    with assms u show ?thesis by (simp add: do_def)
  next
    case bb: (Inr bodyBytes)
    show ?thesis
    proof (cases "NewRequest m (URL_String u) (if b \<noteq> None then Some bodyBytes else None)")
      case (Inl err)
      with assms u bb show ?thesis by (simp add: do_def)
    next
      case (Inr req0)
      from do_issues [OF u bb Inr, of r] assms u bb Inr show ?thesis by simp
    qed
  qed
qed


text \<open>What \<open>do\<close> makes of a response, once the transport has answered the request.\<close>

lemma do_received:
  assumes "issued (do e c m p b r) = Some req" and "client_Do e (client c) req = Inr resp"
  shows "do e c m p b r =
     (if resp_StatusCode resp \<noteq> map_index expectedStatusCode m then
        (case Decode_ErrorResponse e (resp_Body resp) of
           Inl err \<Rightarrow>
             \<lparr>returned = Some (Errorf (Errorf_text (resp_Status resp) m p
                 (spec_sent_body e b) err)),
              target = r, handle = c, issued = Some req\<rparr>
         | Inr errResponse \<Rightarrow>
             \<lparr>returned = Some (Errorf (Errorf_text (resp_Status resp) m p
                 (spec_sent_body e b) (ErrorResponse_String errResponse))),
              target = r, handle = c, issued = Some req\<rparr>)
      else
        (case r of
           nil_iface \<Rightarrow> \<lparr>returned = None, target = nil_iface, handle = c, issued = Some req\<rparr>
         | ptr t \<Rightarrow>
             \<lparr>returned = map_option JsonError (fst (Decode_result e (resp_Body resp) t)),
              target = ptr (snd (Decode_result e (resp_Body resp) t)),
              handle = c, issued = Some req\<rparr>
         | nil_ptr \<Rightarrow>
             \<lparr>returned = map_option JsonError (Decode_interface e (resp_Body resp)),
              target = nil_ptr, handle = c, issued = Some req\<rparr>
         | val t \<Rightarrow>
             \<lparr>returned = map_option JsonError (Decode_interface e (resp_Body resp)),
              target = val t, handle = c, issued = Some req\<rparr>))"
proof -
  from do_issued [OF assms(1)] obtain u bodyBytes req0 where
    u: "URL_Parse (baseURL c) p = Inr u"
    and bb: "(case b of None \<Rightarrow> Inr [] | Some x \<Rightarrow> json_Marshal e x) = Inr bodyBytes"
    and nr: "NewRequest m (URL_String u) (if b \<noteq> None then Some bodyBytes else None) = Inr req0"
    and req: "req = (if b \<noteq> None then
                req0\<lparr>req_Header :=
                  Header_Set (req_Header req0) ''Content-Type'' ''application/json''\<rparr>
              else req0)"
    by blast
  have bytes: "spec_sent_body e b = bodyBytes"
    using bb by (cases b) (simp_all add: spec_sent_body_def)
  have sent: "client_Do e (client c)
      (if b \<noteq> None then
         req0\<lparr>req_Header := Header_Set (req_Header req0) ''Content-Type'' ''application/json''\<rparr>
       else req0) = Inr resp"
    using assms(2) req by simp
  show ?thesis
    unfolding bytes
    using u bb nr sent req
    by (cases b; cases r)
       (simp_all add: do_def Let_def split: sum.splits option.splits prod.splits)
qed

lemma table_lookup:
  "(m, expected) \<in> set [(''POST'', 200), (''PUT'', 200), (''GET'', 200), (''DELETE'', 204::int)]
   \<Longrightarrow> map_index expectedStatusCode m = expected"
  by (auto simp add: map_index_def expectedStatusCode_def)

text \<open>The examples: the steps of \<open>do\<close> before the transport, for the handle of \<open>acme\<close>.\<close>

lemma acme_resolves7:
  "URL_Parse (baseURL acme) ''wiki/rest/api/content/7''
     = Inr ((baseURL acme)\<lparr>Path := ''/wiki/rest/api/content/7''\<rparr>)"
  by code_simp

lemma acme_get7:
  "NewRequest ''GET'' (URL_String ((baseURL acme)\<lparr>Path := ''/wiki/rest/api/content/7''\<rparr>)) None
     = Inr get7"
  by code_simp

lemma acme_delete7:
  "NewRequest ''DELETE'' (URL_String ((baseURL acme)\<lparr>Path := ''/wiki/rest/api/content/7''\<rparr>)) None
     = Inr delete7"
  by code_simp


subsection \<open>The claims\<close>

text \<open>
  \<^bold>\<open>C1.\<close> Status classification. Take a call of the executor with one of the four
  verbs, in which the path resolves, the body (if any) is serialized, the request is built
  and the transport answers it with a response. Against the table POST 200, PUT 200,
  GET 200, DELETE 204: when the status of the response is the entry of the verb, the
  call returns no error of classification (it returns nil, or the error of decoding the
  body for the result argument); for every other status it returns the error made by
  \<^verbatim>\<open>fmt.Errorf\<close>, the API error.
\<close>

theorem status_classification:
  assumes "(m, expected) \<in> set [(''POST'', 200), (''PUT'', 200), (''GET'', 200), (''DELETE'', 204)]"
    and "URL_Parse (baseURL c) p = Inr u"
    and "(case b of None \<Rightarrow> Inr [] | Some x \<Rightarrow> json_Marshal e x) = Inr bodyBytes"
    and "NewRequest m (URL_String u) (if b \<noteq> None then Some bodyBytes else None) = Inr req0"
    and "client_Do e (client c)
           (if b \<noteq> None then
              req0\<lparr>req_Header := Header_Set (req_Header req0) ''Content-Type'' ''application/json''\<rparr>
            else req0) = Inr resp"
  shows "(resp_StatusCode resp = expected \<longrightarrow>
            returned (do e c m p b r) =
              (case r of
                 nil_iface \<Rightarrow> None
               | ptr t \<Rightarrow> map_option JsonError (fst (Decode_result e (resp_Body resp) t))
               | nil_ptr \<Rightarrow> map_option JsonError (Decode_interface e (resp_Body resp))
               | val t \<Rightarrow> map_option JsonError (Decode_interface e (resp_Body resp))))
       \<and> (resp_StatusCode resp \<noteq> expected \<longrightarrow>
            returned (do e c m p b r) =
              Some (Errorf (Errorf_text (resp_Status resp) m p bodyBytes
                (case Decode_ErrorResponse e (resp_Body resp) of
                   Inl failure \<Rightarrow> failure
                 | Inr payload \<Rightarrow> ErrorResponse_String payload))))"
proof -
  have bytes: "spec_sent_body e b = bodyBytes"
    using assms(3) by (cases b) (simp_all add: spec_sent_body_def)
  note run = do_received [OF do_issues [OF assms(2-4)] assms(5), of r,
      unfolded bytes table_lookup [OF assms(1)]]
  show ?thesis
    unfolding run
    by (cases r; cases "Decode_ErrorResponse e (resp_Body resp)") simp_all
qed

text \<open>
  A GET answered with 200 returns nil and with 404 the API error; a DELETE answered with
  204 returns nil and with 200 the API error.
\<close>

theorem status_classification_witness:
  "(''GET'', 200) \<in> set [(''POST'', 200), (''PUT'', 200), (''GET'', 200), (''DELETE'', 204::int)]
   \<and> URL_Parse (baseURL acme) ''wiki/rest/api/content/7''
        = Inr ((baseURL acme)\<lparr>Path := ''/wiki/rest/api/content/7''\<rparr>)
   \<and> NewRequest ''GET'' (URL_String ((baseURL acme)\<lparr>Path := ''/wiki/rest/api/content/7''\<rparr>)) None
        = Inr get7
   \<and> client_Do (stub_env page_found (Inr no_content)) (client acme) get7 = Inr page_found
   \<and> resp_StatusCode page_found = 200
   \<and> returned (do (stub_env page_found (Inr no_content)) acme ''GET''
        ''wiki/rest/api/content/7'' None (ptr ''old'')) = None
   \<and> client_Do (stub_env not_found (Inr no_content)) (client acme) get7 = Inr not_found
   \<and> resp_StatusCode not_found \<noteq> 200
   \<and> returned (do (stub_env not_found (Inr no_content)) acme ''GET''
        ''wiki/rest/api/content/7'' None (ptr ''old'')) =
      Some (Errorf (''404 Not Found'' @ newline @ newline @ ''GET wiki/rest/api/content/7'' @ newline
        @ newline @ newline @ ErrorResponse_String no_content))
   \<and> (''DELETE'', 204) \<in> set [(''POST'', 200), (''PUT'', 200), (''GET'', 200), (''DELETE'', 204::int)]
   \<and> NewRequest ''DELETE'' (URL_String ((baseURL acme)\<lparr>Path := ''/wiki/rest/api/content/7''\<rparr>))
        None = Inr delete7
   \<and> client_Do (stub_env deleted (Inl ''EOF'')) (client acme) delete7 = Inr deleted
   \<and> resp_StatusCode deleted = 204
   \<and> returned (do (stub_env deleted (Inl ''EOF'')) acme ''DELETE''
        ''wiki/rest/api/content/7'' None (nil_iface :: string iface)) = None
   \<and> client_Do (stub_env page_found (Inl ''EOF'')) (client acme) delete7 = Inr page_found
   \<and> resp_StatusCode page_found \<noteq> 204
   \<and> returned (do (stub_env page_found (Inl ''EOF'')) acme ''DELETE''
        ''wiki/rest/api/content/7'' None (nil_iface :: string iface)) =
      Some (Errorf (''200 OK'' @ newline @ newline @ ''DELETE wiki/rest/api/content/7'' @ newline
        @ newline @ newline @ ''EOF''))"
proof -
  have g: "(''GET'', 200) \<in> set [(''POST'', 200), (''PUT'', 200), (''GET'', 200), (''DELETE'', 204::int)]"
    and d: "(''DELETE'', 204) \<in> set [(''POST'', 200), (''PUT'', 200), (''GET'', 200), (''DELETE'', 204::int)]"
    by simp_all
  have nobody: "(case None :: string option of None \<Rightarrow> Inr [] | Some x \<Rightarrow> json_Marshal e x) = Inr []"
    for e :: "(string, string) env"
    by simp
  have get: "NewRequest ''GET'' (URL_String ((baseURL acme)\<lparr>Path := ''/wiki/rest/api/content/7''\<rparr>))
      (if (None :: string option) \<noteq> None then Some [] else None) = Inr get7"
    using acme_get7 by simp
  have del: "NewRequest ''DELETE'' (URL_String ((baseURL acme)\<lparr>Path := ''/wiki/rest/api/content/7''\<rparr>))
      (if (None :: string option) \<noteq> None then Some [] else None) = Inr delete7"
    using acme_delete7 by simp
  have sent: "client_Do (stub_env resp decoded) (client acme)
      (if (None :: string option) \<noteq> None then
         req\<lparr>req_Header := Header_Set (req_Header req) ''Content-Type'' ''application/json''\<rparr>
       else req) = Inr resp" for resp decoded req
    by (simp add: stub_env_def)
  have codes: "resp_StatusCode page_found = 200" "resp_StatusCode not_found = 404"
    "resp_StatusCode deleted = 204"
    by (simp_all add: page_found_def not_found_def deleted_def)
  have decoders: "Decode_result (stub_env resp decoded) body t = (None, body)"
    "Decode_ErrorResponse (stub_env resp decoded) body = decoded" for resp decoded body t
    by (simp_all add: stub_env_def)
  from status_classification [OF g acme_resolves7 nobody get sent, of page_found "Inr no_content" "ptr ''old''"]
    status_classification [OF g acme_resolves7 nobody get sent, of not_found "Inr no_content" "ptr ''old''"]
    status_classification [OF d acme_resolves7 nobody del sent, of deleted "Inl ''EOF''" nil_iface]
    status_classification [OF d acme_resolves7 nobody del sent, of page_found "Inl ''EOF''" nil_iface]
    g d acme_resolves7 acme_get7 acme_delete7 codes decoders
  show ?thesis
    by (simp add: stub_env_def Errorf_text_def page_found_def not_found_def)
qed





text \<open>
  \<^bold>\<open>C5 (as amended).\<close> Success. When the status of the response is the entry of the
  verb: with a result argument that is a non-nil pointer, and a body that decodes into the
  variable behind it without error, that variable holds the decoded value and the call
  returns nil; with no result argument (as in \<open>Delete\<close>) the call returns nil whatever the
  body of the response is.
\<close>

theorem success_populates_target:
  assumes "(m, expected) \<in> set [(''POST'', 200), (''PUT'', 200), (''GET'', 200), (''DELETE'', 204)]"
    and "URL_Parse (baseURL c) p = Inr u"
    and "(case b of None \<Rightarrow> Inr [] | Some x \<Rightarrow> json_Marshal e x) = Inr bodyBytes"
    and "NewRequest m (URL_String u) (if b \<noteq> None then Some bodyBytes else None) = Inr req0"
    and "client_Do e (client c)
           (if b \<noteq> None then
              req0\<lparr>req_Header := Header_Set (req_Header req0) ''Content-Type'' ''application/json''\<rparr>
            else req0) = Inr resp"
    and "resp_StatusCode resp = expected"
  shows "(\<forall>t t'. r = ptr t \<and> Decode_result e (resp_Body resp) t = (None, t') \<longrightarrow>
            returned (do e c m p b r) = None \<and> target (do e c m p b r) = ptr t')
       \<and> (r = nil_iface \<longrightarrow>
            returned (do e c m p b r) = None \<and> target (do e c m p b r) = nil_iface)"
proof -
  note run = do_received [OF do_issues [OF assms(2-4)] assms(5), of r,
      unfolded table_lookup [OF assms(1)]]
  show ?thesis
    unfolding run using assms(6)
    by (cases r) auto
qed

text \<open>A GET answered with 200 fills the variable; a DELETE answered with 204 returns nil.\<close>

theorem success_populates_target_witness:
  "(''GET'', 200) \<in> set [(''POST'', 200), (''PUT'', 200), (''GET'', 200), (''DELETE'', 204::int)]
   \<and> URL_Parse (baseURL acme) ''wiki/rest/api/content/7''
        = Inr ((baseURL acme)\<lparr>Path := ''/wiki/rest/api/content/7''\<rparr>)
   \<and> NewRequest ''GET'' (URL_String ((baseURL acme)\<lparr>Path := ''/wiki/rest/api/content/7''\<rparr>)) None
        = Inr get7
   \<and> client_Do (stub_env page_found (Inl ''unused'')) (client acme) get7 = Inr page_found
   \<and> resp_StatusCode page_found = 200
   \<and> Decode_result (stub_env page_found (Inl ''unused'')) (resp_Body page_found) ''old''
        = (None, ''{page 7}'')
   \<and> returned (do (stub_env page_found (Inl ''unused'')) acme ''GET'' ''wiki/rest/api/content/7''
        None (ptr ''old'')) = None
   \<and> target (do (stub_env page_found (Inl ''unused'')) acme ''GET'' ''wiki/rest/api/content/7''
        None (ptr ''old'')) = ptr ''{page 7}''
   \<and> (''DELETE'', 204) \<in> set [(''POST'', 200), (''PUT'', 200), (''GET'', 200), (''DELETE'', 204::int)]
   \<and> NewRequest ''DELETE'' (URL_String ((baseURL acme)\<lparr>Path := ''/wiki/rest/api/content/7''\<rparr>))
        None = Inr delete7
   \<and> client_Do (stub_env deleted (Inl ''unused'')) (client acme) delete7 = Inr deleted
   \<and> resp_StatusCode deleted = 204
   \<and> resp_Body deleted = ''ignored''
   \<and> returned (Delete (stub_env deleted (Inl ''unused'')) acme ''wiki/rest/api/content/7''
        :: string outcome) = None"
proof -
  have g: "(''GET'', 200) \<in> set [(''POST'', 200), (''PUT'', 200), (''GET'', 200), (''DELETE'', 204::int)]"
    and d: "(''DELETE'', 204) \<in> set [(''POST'', 200), (''PUT'', 200), (''GET'', 200), (''DELETE'', 204::int)]"
    by simp_all
  have nobody: "(case None :: string option of None \<Rightarrow> Inr [] | Some x \<Rightarrow> json_Marshal e x) = Inr []"
    for e :: "(string, string) env"
    by simp
  have get: "NewRequest ''GET'' (URL_String ((baseURL acme)\<lparr>Path := ''/wiki/rest/api/content/7''\<rparr>))
      (if (None :: string option) \<noteq> None then Some [] else None) = Inr get7"
    using acme_get7 by simp
  have del: "NewRequest ''DELETE'' (URL_String ((baseURL acme)\<lparr>Path := ''/wiki/rest/api/content/7''\<rparr>))
      (if (None :: string option) \<noteq> None then Some [] else None) = Inr delete7"
    using acme_delete7 by simp
  have sent: "client_Do (stub_env resp decoded) (client acme)
      (if (None :: string option) \<noteq> None then
         req\<lparr>req_Header := Header_Set (req_Header req) ''Content-Type'' ''application/json''\<rparr>
       else req) = Inr resp" for resp decoded req
    by (simp add: stub_env_def)
  have codes: "resp_StatusCode page_found = 200" "resp_StatusCode deleted = 204"
    "resp_Body deleted = ''ignored''"
    by (simp_all add: page_found_def deleted_def)
  have dec: "Decode_result (stub_env page_found (Inl ''unused'')) (resp_Body page_found) ''old''
        = (None, ''{page 7}'')"
    by (simp add: stub_env_def page_found_def)
  from success_populates_target [OF g acme_resolves7 nobody get
      sent [where resp = page_found and decoded = "Inl ''unused''"] codes(1),
      where r = "ptr ''old''"]
    success_populates_target [OF d acme_resolves7 nobody del
      sent [where resp = deleted and decoded = "Inl ''unused''"] codes(2),
      where r = nil_iface]
    g d acme_resolves7 acme_get7 acme_delete7 codes dec
  show ?thesis
    by (simp add: stub_env_def Delete_def)
qed

text \<open>
  \<^bold>\<open>C5 as stated\<close> fails for a result argument that is not nil and not a pointer: a GET
  answered with 200 and a body that decodes returns nil, and the value the caller passed
  is as it was, not the decoded one.
\<close>

theorem target_by_value_counterexample:
  "URL_Parse (baseURL acme) ''wiki/rest/api/content/7''
        = Inr ((baseURL acme)\<lparr>Path := ''/wiki/rest/api/content/7''\<rparr>)
   \<and> NewRequest ''GET'' (URL_String ((baseURL acme)\<lparr>Path := ''/wiki/rest/api/content/7''\<rparr>)) None
        = Inr get7
   \<and> client_Do (stub_env page_found (Inl ''unused'')) (client acme) get7 = Inr page_found
   \<and> resp_StatusCode page_found = 200
   \<and> Decode_result (stub_env page_found (Inl ''unused'')) (resp_Body page_found) ''old''
        = (None, ''{page 7}'')
   \<and> Decode_interface (stub_env page_found (Inl ''unused'') :: (string, string) env)
        (resp_Body page_found) = None
   \<and> val ''old'' \<noteq> nil_iface
   \<and> returned (Get (stub_env page_found (Inl ''unused'')) acme ''wiki/rest/api/content/7''
        (val ''old'')) = None
   \<and> target (Get (stub_env page_found (Inl ''unused'')) acme ''wiki/rest/api/content/7''
        (val ''old'')) = val ''old''
   \<and> target (Get (stub_env page_found (Inl ''unused'')) acme ''wiki/rest/api/content/7''
        (val ''old'')) \<noteq> val ''{page 7}''"
  by code_simp



text \<open>
  \<^bold>\<open>C7.\<close> Construction. For every input (site, user, token), \<open>NewClient\<close> returns a
  handle, and always this one: the authenticated base has scheme \<^verbatim>\<open>https\<close>, host
  site\<^verbatim>\<open>.atlassian.net\<close> and the credentials (user, token); the public base has the same
  scheme and host and no credentials; the timeout of the transport is ten seconds.
\<close>

theorem NewClient_builds:
  "NewClient (Some i) =
     Inr \<lparr>client = \<lparr>Timeout = 10 * 1000000000\<rparr>,
          baseURL = \<lparr>Scheme = ''https'', Opaque = [],
            User = Some \<lparr>username = user i, password = token i, passwordSet = True\<rparr>,
            Host = site i @ ''.atlassian.net'', Path = [], RawPath = [], OmitHost = False,
            ForceQuery = False, RawQuery = [], Fragment = [], RawFragment = []\<rparr>,
          publicURL = \<lparr>Scheme = ''https'', Opaque = [], User = None,
            Host = site i @ ''.atlassian.net'', Path = [], RawPath = [], OmitHost = False,
            ForceQuery = False, RawQuery = [], Fragment = [], RawFragment = []\<rparr>\<rparr>"
  by (simp add: NewClient_def zero_URL_def UserPassword_def Second_def)

text \<open>The handle of the site \<^verbatim>\<open>acme\<close>.\<close>

theorem NewClient_builds_witness: "NewClient (Some acme_input) = Inr acme"
  using NewClient_builds [of acme_input]
  by (simp add: acme_input_def acme_def acme_public_def)

text \<open>
  \<^bold>\<open>C8.\<close> Unparsable path. For every path that \<open>Parse\<close> rejects, \<open>URL\<close> returns the
  empty string; no error reaches the caller.
\<close>

theorem URL_unparsable: "Parse path = Inl err \<Longrightarrow> fst (URL c path) = []"
  by (simp add: URL_def URL_Parse_def)

text \<open>A path ending in a lone percent sign is rejected.\<close>

theorem URL_unparsable_witness:
  "Parse ''wiki/100%'' = Inl (url_Error ''parse'' ''wiki/100%'' (EscapeError ''%''))
   \<and> fst (URL acme ''wiki/100%'') = []"
proof -
  have p: "Parse ''wiki/100%'' = Inl (url_Error ''parse'' ''wiki/100%'' (EscapeError ''%''))"
    by code_simp
  from URL_unparsable [OF p, of acme] p show ?thesis by simp
qed

text \<open>
  \<^bold>\<open>C9.\<close> The handle is read only. After a call of the executor, of \<open>Post\<close>, \<open>Get\<close>,
  \<open>Put\<close>, \<open>Delete\<close> or of \<open>URL\<close>, the handle (both base URLs and the timeout) is what it
  was before the call.
\<close>

theorem handle_unchanged:
  "handle (do e c m p b r) = c \<and> handle (Post e c p b r) = c \<and> handle (Get e c p r) = c
   \<and> handle (Put e c p b r) = c \<and> handle (Delete e c p) = c \<and> snd (URL c p) = c"
  by (simp add: do_handle Post_def Get_def Put_def Delete_def URL_def split: sum.splits)

theorem handle_unchanged_witness:
  "handle (Post (stub_env not_found (Inr no_content)) acme ''wiki/rest/api/content''
     (Some ''{new page}'') (ptr ''old'')) = acme
   \<and> snd (URL acme ''wiki/page/1'') = acme"
  using handle_unchanged [of "stub_env not_found (Inr no_content)" acme "''POST''"
     "''wiki/rest/api/content''" "Some ''{new page}''" "ptr ''old''"]
    handle_unchanged [of "stub_env not_found (Inr no_content)" acme "''POST''"
     "''wiki/page/1''" "Some ''{new page}''" "ptr ''old''"]
  by simp

text \<open>
  \<^bold>\<open>C10.\<close> Formatting of the error payload. The text is the message, then the lines
  \<^verbatim>\<open>Authorized:\<close>, \<^verbatim>\<open>Valid:\<close> and \<^verbatim>\<open>Successful:\<close> with their flags, then every
  sub-error on a line of its own after the prefix of two spaces, a star and a space; this
  last part is empty exactly when there are no sub-errors.
\<close>

theorem ErrorResponse_String_format:
  "ErrorResponse_String e =
     Message e @ newline @ ''Authorized: '' @ fmt_bool (Authorized (Data e))
     @ newline @ ''Valid: '' @ fmt_bool (Valid (Data e))
     @ newline @ ''Successful: '' @ fmt_bool (Successful (Data e))
     @ spec_bullets (Errors (Data e))
   \<and> (spec_bullets (Errors (Data e)) = [] \<longleftrightarrow> Errors (Data e) = [])"
  using ErrorResponse_String_unfold [of e]
  by (cases "Errors (Data e)") (simp_all add: spec_bullets_def newline_def)

text \<open>The payload of the examples.\<close>

theorem ErrorResponse_String_format_witness:
  "ErrorResponse_String no_content =
     ''No content found'' @ newline @ ''Authorized: true'' @ newline @ ''Valid: false'' @ newline
     @ ''Successful: false'' @ newline @ ''  * no page'' @ newline @ ''  * no space''"
  using ErrorResponse_String_format [of no_content]
  by (simp add: no_content_def spec_bullets_def fmt_bool_def)

end
